theory Spec2Isabelle
  imports Complex_Main
begin

section \<open>Numbers\<close>

text \<open>
  The program computes with Python numbers and numpy \<open>float64\<close> arrays. A finite
  value is modelled by the real number it stands for, so rounding to 53 bits and
  overflow are not part of the model. What numpy does where the real operation is
  undefined is part of the model: a division by zero does not raise, it gives
  \<open>nan\<close> or a signed \<open>inf\<close> (with a warning), and these values then
  propagate through the following operations by the IEEE 754 rules.

  Zero carries no sign here. Every zero divisor this program can produce is the result
  of a subtraction \<open>x - x\<close> or of \<open>1 + (-1)\<close>, which is \<open>+0.0\<close>, and so a zero
  divisor is read as \<open>+0.0\<close>.
\<close>

datatype npfloat = Fin real | PInf | MInf | NaN

fun fneg :: "npfloat \<Rightarrow> npfloat" where
  "fneg (Fin a) = Fin (- a)"
| "fneg PInf = MInf"
| "fneg MInf = PInf"
| "fneg NaN = NaN"

fun fadd :: "npfloat \<Rightarrow> npfloat \<Rightarrow> npfloat" where
  "fadd (Fin a) (Fin b) = Fin (a + b)"
| "fadd NaN _ = NaN"
| "fadd _ NaN = NaN"
| "fadd PInf MInf = NaN"
| "fadd MInf PInf = NaN"
| "fadd PInf _ = PInf"
| "fadd _ PInf = PInf"
| "fadd MInf _ = MInf"
| "fadd _ MInf = MInf"

definition fsub :: "npfloat \<Rightarrow> npfloat \<Rightarrow> npfloat" where
  "fsub a b = fadd a (fneg b)"

fun fmul :: "npfloat \<Rightarrow> npfloat \<Rightarrow> npfloat" where
  "fmul (Fin a) (Fin b) = Fin (a * b)"
| "fmul NaN _ = NaN"
| "fmul _ NaN = NaN"
| "fmul PInf (Fin b) = (if b = 0 then NaN else if 0 < b then PInf else MInf)"
| "fmul MInf (Fin b) = (if b = 0 then NaN else if 0 < b then MInf else PInf)"
| "fmul (Fin a) PInf = (if a = 0 then NaN else if 0 < a then PInf else MInf)"
| "fmul (Fin a) MInf = (if a = 0 then NaN else if 0 < a then MInf else PInf)"
| "fmul PInf PInf = PInf"
| "fmul PInf MInf = MInf"
| "fmul MInf PInf = MInf"
| "fmul MInf MInf = PInf"

fun fdiv :: "npfloat \<Rightarrow> npfloat \<Rightarrow> npfloat" where
  "fdiv (Fin a) (Fin b) =
     (if b = 0 then (if a = 0 then NaN else if 0 < a then PInf else MInf)
      else Fin (a / b))"
| "fdiv NaN _ = NaN"
| "fdiv _ NaN = NaN"
| "fdiv (Fin a) PInf = Fin 0"
| "fdiv (Fin a) MInf = Fin 0"
| "fdiv PInf (Fin b) = (if 0 \<le> b then PInf else MInf)"
| "fdiv MInf (Fin b) = (if 0 \<le> b then MInf else PInf)"
| "fdiv PInf PInf = NaN"
| "fdiv PInf MInf = NaN"
| "fdiv MInf PInf = NaN"
| "fdiv MInf MInf = NaN"

text \<open>
  \<open>b ** m\<close> for a finite float \<open>b\<close> and a Python integer \<open>m\<close>. A negative
  exponent of zero is \<open>inf\<close>; \<open>0.0 ** 0\<close> is \<open>1.0\<close>.
\<close>

definition fpow :: "real \<Rightarrow> int \<Rightarrow> npfloat" where
  "fpow b m =
     (if 0 \<le> m then Fin (b ^ nat m)
      else if b = 0 then PInf
      else Fin (1 / b ^ nat (- m)))"

section \<open>Loan payments: \<open>loan_calc\<close>\<close>

text \<open>
  An argument of \<open>loan_calc\<close> is a Python number or a one-dimensional array; its
  result is a Python float (\<open>result.item()\<close>), a one-dimensional array
  (\<open>result.ravel()\<close>) or the two-dimensional array \<open>result\<close> itself, which is kept
  with its shape.
\<close>

datatype arg = Scalar real | Array "real list"

datatype res = Item npfloat | Array1 "npfloat list" | Array2 nat nat "npfloat list list"

fun atleast_1d :: "arg \<Rightarrow> real list" where
  "atleast_1d (Scalar x) = [x]"
| "atleast_1d (Array xs) = xs"

text \<open>One cell of \<open>(numerator / denominator) * loan\<close>.\<close>

definition payment_cell :: "real \<Rightarrow> real \<Rightarrow> int \<Rightarrow> npfloat" where
  "payment_cell loan rate months =
     (let monthly_rate = rate / 12;
          numerator = fmul (Fin monthly_rate) (fpow (1 + monthly_rate) months);
          denominator = fsub (fpow (1 + monthly_rate) months) (Fin 1)
      in fmul (fdiv numerator denominator) (Fin loan))"

definition loan_calc :: "arg \<Rightarrow> arg \<Rightarrow> int \<Rightarrow> res" where
  "loan_calc loan rate months =
     (let loan_col = atleast_1d loan;
          rate_row = atleast_1d rate;
          result = map (\<lambda>l. map (\<lambda>r. payment_cell l r months) rate_row) loan_col;
          shape0 = length loan_col;
          shape1 = length rate_row
      in if shape0 * shape1 = 1 then Item (hd (concat result))
         else if shape0 = 1 \<or> shape1 = 1 then Array1 (concat result)
         else Array2 shape0 shape1 result)"

section \<open>Electricity costs\<close>

definition calculate_govt_support :: "real \<Rightarrow> real \<Rightarrow> real \<Rightarrow> real" where
  "calculate_govt_support kwh_usage kwh_price_incl_vat_nok govt_support_limit_nok =
     (if kwh_usage \<le> 5000
      then (kwh_usage * (kwh_price_incl_vat_nok - govt_support_limit_nok)) * 0.9
      else 0)"

definition calculate_electricity_costs ::
  "real \<Rightarrow> real \<Rightarrow> real \<Rightarrow> real \<Rightarrow> real \<Rightarrow> real" where
  "calculate_electricity_costs kwh_usage kwh_price_incl_vat_nok markup_nok fixed_cost_nok
       govt_support_limit_nok =
     (let costs = fixed_cost_nok + (kwh_usage * (kwh_price_incl_vat_nok + markup_nok))
      in if kwh_price_incl_vat_nok \<le> govt_support_limit_nok then costs
         else costs -
           calculate_govt_support kwh_usage kwh_price_incl_vat_nok govt_support_limit_nok)"

text \<open>
  One row of the frame that \<open>scenario_analysis_electricity_costs\<close> returns; the
  columns are \<open>kWh Usage\<close>, \<open>kWh Price (NOK)\<close> and \<open>Total Cost (NOK)\<close>.
\<close>

record el_scenario =
  kWh_Usage :: real
  kWh_Price :: real
  Total_Cost :: real

text \<open>The two nested \<open>for\<close> loops, each appending to \<open>scenarios\<close>.\<close>

definition scenario_analysis_electricity_costs ::
  "real list \<Rightarrow> real list \<Rightarrow> real \<Rightarrow> real \<Rightarrow> real \<Rightarrow> el_scenario list" where
  "scenario_analysis_electricity_costs kwh_usage_range kwh_price_range markup_nok
       fixed_cost_nok govt_support_limit_nok =
     foldl (\<lambda>scenarios kwh_usage.
        foldl (\<lambda>scenarios kwh_price.
           scenarios @
             [\<lparr>kWh_Usage = kwh_usage, kWh_Price = kwh_price,
               Total_Cost = calculate_electricity_costs kwh_usage kwh_price markup_nok
                  fixed_cost_nok govt_support_limit_nok\<rparr>])
          scenarios kwh_price_range)
       [] kwh_usage_range"

section \<open>The monthly cost of a house for two owners\<close>

datatype py_error = ValueError

text \<open>
  \<open>pd.Series\<close> of a result of \<open>loan_calc\<close>: a float gives a series of one element,
  a one-dimensional array a series of its elements, and pandas refuses a
  two-dimensional array.
\<close>

fun series_of :: "res \<Rightarrow> py_error + npfloat list" where
  "series_of (Item x) = Inr [x]"
| "series_of (Array1 xs) = Inr xs"
| "series_of (Array2 m k xss) = Inl ValueError"

text \<open>
  A row of the frame. The field names are the column names, written without the
  Norwegian letters: \<open>lan_total\<close>, \<open>total_belop\<close>, \<open>a_belop_hus\<close>,
  \<open>b_belop_hus\<close>.
\<close>

record house_row =
  lan_total :: npfloat
  rente :: real
  elpris :: real
  fk_hus :: real
  total_belop :: npfloat
  a_belop_hus :: npfloat
  b_belop_hus :: npfloat
  a_total :: npfloat
  b_total :: npfloat
  person_a_eierandel :: real
  person_b_eierandel :: real

text \<open>
  What a call of \<open>monthly_price_calculator\<close> does: over the limit it prints a message
  that names the limit and the computed loan, and returns the \<open>None\<close> of \<open>print\<close>;
  otherwise it returns the frame.
\<close>

datatype calculator_result =
    Printed_None real real
  | Raised py_error
  | DataFrame "house_row list"

text \<open>
  \<open>max_loan_limit\<close> is \<open>None\<close> or a number. The test \<open>if max_loan_limit:\<close> is
  true for a number other than 0; \<open>None\<close> and 0 are false, and then the loan is not
  compared with the limit.
\<close>

definition monthly_price_calculator ::
  "real \<Rightarrow> real \<Rightarrow> real \<Rightarrow> real \<Rightarrow> int \<Rightarrow> real \<Rightarrow> real \<Rightarrow> real \<Rightarrow> real \<Rightarrow> real \<Rightarrow> real option
     \<Rightarrow> calculator_result" where
  "monthly_price_calculator houseprice interest_rate fixed_cost_house elprice
       ammortisation_periods person_a_fixed_costs person_b_fixed_costs transaction_costs ek
       ownership_fraq max_loan_limit =
     (let rest_fraq = 1 - ownership_fraq;
          eff_ek = ek - transaction_costs;
          loan = houseprice - eff_ek;
          df =
           (case series_of (loan_calc (Scalar loan) (Scalar interest_rate)
                   ammortisation_periods) of
              Inl e \<Rightarrow> Raised e
            | Inr monthly_loan \<Rightarrow>
                DataFrame (map (\<lambda>x.
                  (let a_belop = fadd (fadd (fmul x (Fin ownership_fraq)) (Fin (elprice / 2)))
                                   (Fin (fixed_cost_house / 2));
                       b_belop = fadd (fadd (fmul x (Fin rest_fraq)) (Fin (elprice / 2)))
                                   (Fin (fixed_cost_house / 2))
                   in \<lparr>lan_total = x, rente = interest_rate, elpris = elprice,
                       fk_hus = fixed_cost_house,
                       total_belop = fadd (fadd x (Fin elprice)) (Fin fixed_cost_house),
                       a_belop_hus = a_belop, b_belop_hus = b_belop,
                       a_total = fadd a_belop (Fin person_a_fixed_costs),
                       b_total = fadd b_belop (Fin person_b_fixed_costs),
                       person_a_eierandel = ownership_fraq,
                       person_b_eierandel = rest_fraq\<rparr>)) monthly_loan))
      in case max_loan_limit of
           None \<Rightarrow> df
         | Some limit_nok \<Rightarrow>
             if limit_nok \<noteq> 0 then
               (if loan > limit_nok then Printed_None limit_nok loan else df)
             else df)"

section \<open>The sweep over thirteen ranges\<close>

text \<open>
  Python arithmetic on what \<open>loan_calc\<close> returned, with a number as the other
  operand: on a float it is the float operation, on an array it is done cell by cell.
\<close>

fun res_map :: "(npfloat \<Rightarrow> npfloat) \<Rightarrow> res \<Rightarrow> res" where
  "res_map f (Item x) = Item (f x)"
| "res_map f (Array1 xs) = Array1 (map f xs)"
| "res_map f (Array2 m k xss) = Array2 m k (map (map f) xss)"

definition res_times :: "res \<Rightarrow> real \<Rightarrow> res" where
  "res_times v c = res_map (\<lambda>x. fmul x (Fin c)) v"

definition res_plus :: "res \<Rightarrow> real \<Rightarrow> res" where
  "res_plus v c = res_map (\<lambda>x. fadd x (Fin c)) v"

text \<open>A row of the result; the field \<open>c_x\<close> is the column \<open>x\<close>.\<close>

record scenario =
  c_house_price :: real
  c_interest_rate :: real
  c_fixed_cost_house :: real
  c_kwh_usage :: real
  c_kwh_price :: real
  c_markup_nok :: real
  c_fixed_cost_electricity :: real
  c_el_cost :: real
  c_ammortisation_periods :: int
  c_person_a_fixed_costs :: real
  c_person_b_fixed_costs :: real
  c_transaction_costs :: real
  c_ek :: real
  c_ownership_fraq :: real
  c_monthly_loan_payment :: res
  c_a_total :: res
  c_b_total :: res

type_synonym combination =
  "real \<times> real \<times> real \<times> real \<times> real \<times> real \<times> real \<times> int \<times> real \<times> real \<times> real \<times> real \<times> real"

text \<open>
  The body of the loop over \<open>all_combinations\<close>. \<open>calculate_electricity_costs\<close> is
  called with four arguments, so its support limit is the default 0.9125.
\<close>

fun scenario_of :: "combination \<Rightarrow> scenario" where
  "scenario_of (house_price, interest_rate, fixed_cost_house, kwh_usage, kwh_price,
       markup_nok, fixed_cost_electricity, ammortisation_periods, person_a_fixed_costs,
       person_b_fixed_costs, transaction_costs, ek, ownership_fraq) =
     (let eff_ek = ek - transaction_costs;
          loan = house_price - eff_ek;
          monthly_loan_payment =
            loan_calc (Scalar loan) (Scalar interest_rate) ammortisation_periods;
          el_cost = calculate_electricity_costs kwh_usage kwh_price markup_nok
                      fixed_cost_electricity 0.9125;
          a_share = res_plus (res_plus (res_times monthly_loan_payment ownership_fraq)
                      (el_cost / 2)) (fixed_cost_house / 2);
          b_share = res_plus (res_plus (res_times monthly_loan_payment (1 - ownership_fraq))
                      (el_cost / 2)) (fixed_cost_house / 2);
          a_total = res_plus a_share person_a_fixed_costs;
          b_total = res_plus b_share person_b_fixed_costs
      in \<lparr>c_house_price = house_price, c_interest_rate = interest_rate,
          c_fixed_cost_house = fixed_cost_house, c_kwh_usage = kwh_usage,
          c_kwh_price = kwh_price, c_markup_nok = markup_nok,
          c_fixed_cost_electricity = fixed_cost_electricity, c_el_cost = el_cost,
          c_ammortisation_periods = ammortisation_periods,
          c_person_a_fixed_costs = person_a_fixed_costs,
          c_person_b_fixed_costs = person_b_fixed_costs,
          c_transaction_costs = transaction_costs, c_ek = ek,
          c_ownership_fraq = ownership_fraq,
          c_monthly_loan_payment = monthly_loan_payment,
          c_a_total = a_total, c_b_total = b_total\<rparr>)"

text \<open>
  \<open>itertools.product\<close> runs its last argument fastest, as \<open>List.product\<close> does, and
  a tuple of thirteen is a pair nested to the right.
\<close>

definition all_combinations ::
  "real list \<Rightarrow> real list \<Rightarrow> real list \<Rightarrow> real list \<Rightarrow> real list \<Rightarrow> real list \<Rightarrow> real list
     \<Rightarrow> int list \<Rightarrow> real list \<Rightarrow> real list \<Rightarrow> real list \<Rightarrow> real list \<Rightarrow> real list
     \<Rightarrow> combination list" where
  "all_combinations houseprice_range interest_rate_range fixed_cost_house_range
       kwh_usage_range kwh_price_range markup_nok_range fixed_cost_electricity_range
       ammortisation_periods_range person_a_fixed_costs_range person_b_fixed_costs_range
       transaction_costs_range ek_range ownership_fraq_range =
     List.product houseprice_range (List.product interest_rate_range
       (List.product fixed_cost_house_range (List.product kwh_usage_range
         (List.product kwh_price_range (List.product markup_nok_range
           (List.product fixed_cost_electricity_range
             (List.product ammortisation_periods_range
               (List.product person_a_fixed_costs_range
                 (List.product person_b_fixed_costs_range
                   (List.product transaction_costs_range
                     (List.product ek_range ownership_fraq_range)))))))))))"

definition monthly_price_calculator_scenarios ::
  "real list \<Rightarrow> real list \<Rightarrow> real list \<Rightarrow> real list \<Rightarrow> real list \<Rightarrow> real list \<Rightarrow> real list
     \<Rightarrow> int list \<Rightarrow> real list \<Rightarrow> real list \<Rightarrow> real list \<Rightarrow> real list \<Rightarrow> real list
     \<Rightarrow> scenario list" where
  "monthly_price_calculator_scenarios houseprice_range interest_rate_range
       fixed_cost_house_range kwh_usage_range kwh_price_range markup_nok_range
       fixed_cost_electricity_range ammortisation_periods_range person_a_fixed_costs_range
       person_b_fixed_costs_range transaction_costs_range ek_range ownership_fraq_range =
     foldl (\<lambda>results c. results @ [scenario_of c]) []
       (all_combinations houseprice_range interest_rate_range fixed_cost_house_range
          kwh_usage_range kwh_price_range markup_nok_range fixed_cost_electricity_range
          ammortisation_periods_range person_a_fixed_costs_range
          person_b_fixed_costs_range transaction_costs_range ek_range
          ownership_fraq_range)"

section \<open>The amortization schedule\<close>

text \<open>
  \<open>ndarray.round(0)\<close> rounds to the nearest whole number and a tie to the even one;
  \<open>nan\<close> and \<open>inf\<close> stay as they are.
\<close>

definition rint :: "real \<Rightarrow> real" where
  "rint x =
     (let f = \<lfloor>x\<rfloor>; d = x - of_int f
      in if d < 1 / 2 then of_int f
         else if 1 / 2 < d then of_int f + 1
         else if even f then of_int f else of_int f + 1)"

fun fround :: "npfloat \<Rightarrow> npfloat" where
  "fround (Fin x) = Fin (rint x)"
| "fround PInf = PInf"
| "fround MInf = MInf"
| "fround NaN = NaN"

text \<open>\<open>ndarray.cumsum()\<close>: the running sums, from left to right.\<close>

fun cumsum_from :: "npfloat \<Rightarrow> npfloat list \<Rightarrow> npfloat list" where
  "cumsum_from acc [] = []"
| "cumsum_from acc (x # xs) = fadd acc x # cumsum_from (fadd acc x) xs"

definition cumsum :: "npfloat list \<Rightarrow> npfloat list" where
  "cumsum xs = (case xs of [] \<Rightarrow> [] | x # ys \<Rightarrow> x # cumsum_from x ys)"

text \<open>
  Modelled from the spec: the fixed payment of the amortizing loan, which
  \<open>numpy_financial\<close> computes inside \<open>ipmt\<close> and \<open>ppmt\<close>; the library is not
  part of the repository. It is the spec's annuity formula
  \<open>principal * r * (1+r)^n / ((1+r)^n - 1)\<close> for the monthly rate \<open>r\<close>, and
  \<open>principal / n\<close> at rate 0.
\<close>

definition fixed_payment :: "real \<Rightarrow> nat \<Rightarrow> real \<Rightarrow> npfloat" where
  "fixed_payment r n pv =
     (if r = 0 then fdiv (Fin pv) (Fin (real n))
      else fdiv (Fin (pv * r * (1 + r) ^ n)) (Fin ((1 + r) ^ n - 1)))"

text \<open>
  Modelled from the spec: the outstanding balance after \<open>j\<close> payments, that is at
  the start of period \<open>j + 1\<close>. Each payment takes off its principal component,
  which is the payment less the interest on the balance at the start of the period.
\<close>

fun outstanding_balance :: "real \<Rightarrow> nat \<Rightarrow> real \<Rightarrow> nat \<Rightarrow> npfloat" where
  "outstanding_balance r n pv 0 = Fin pv"
| "outstanding_balance r n pv (Suc j) =
     fsub (outstanding_balance r n pv j)
       (fsub (fixed_payment r n pv) (fmul (outstanding_balance r n pv j) (Fin r)))"

text \<open>
  Modelled from the spec: \<open>npf.ipmt(rate, per, nper, pv)\<close>, missing from the
  sources. The interest component of period \<open>per\<close> is the outstanding balance at the
  start of the period times the monthly rate. The library counts a payment as negative
  (the source multiplies by \<open>-1\<close> to have the amount paid), and has no payment
  before period 1.
\<close>

fun npf_ipmt :: "real \<Rightarrow> nat \<Rightarrow> nat \<Rightarrow> real \<Rightarrow> npfloat" where
  "npf_ipmt rate 0 nper pv = NaN"
| "npf_ipmt rate (Suc j) nper pv = fneg (fmul (outstanding_balance rate nper pv j) (Fin rate))"

text \<open>
  Modelled from the spec: \<open>npf.ppmt(rate, per, nper, pv)\<close>, missing from the
  sources. The principal component is the payment less the interest component; both
  are negative here, as in \<open>npf_ipmt\<close>.
\<close>

definition npf_ppmt :: "real \<Rightarrow> nat \<Rightarrow> nat \<Rightarrow> real \<Rightarrow> npfloat" where
  "npf_ppmt rate per nper pv = fsub (fneg (fixed_payment rate nper pv)) (npf_ipmt rate per nper pv)"

text \<open>The frame that \<open>calculate_amortization_schedule\<close> returns, column by column.\<close>

record amortization =
  Month :: "nat list"
  Principal :: "npfloat list"
  Interest :: "npfloat list"
  Remaining_Balance :: "npfloat list"
  Total_Paid :: "npfloat list"

text \<open>
  With a negative term \<open>np.arange\<close> is empty and \<open>np.repeat\<close> refuses the negative
  count. Otherwise \<open>per\<close> is \<open>1, \<dots>, n\<close>.
\<close>

definition calculate_amortization_schedule :: "real \<Rightarrow> real \<Rightarrow> int \<Rightarrow> py_error + amortization" where
  "calculate_amortization_schedule loan_amount annual_interest_rate loan_term_months =
     (if loan_term_months < 0 then Inl ValueError
      else
        (let n = nat loan_term_months;
             monthly_interest_rate = annual_interest_rate / 12;
             per = map Suc [0..<n];
             interest_pmt =
               map (\<lambda>k. fmul (npf_ipmt monthly_interest_rate k n loan_amount) (Fin (- 1))) per;
             principal_pmt =
               map (\<lambda>k. fmul (npf_ppmt monthly_interest_rate k n loan_amount) (Fin (- 1))) per;
             cumulative_interest = map fround (Fin 0 # cumsum interest_pmt);
             cumulative_principal = map fround (Fin 0 # cumsum principal_pmt);
             cumulative_total = map2 fadd cumulative_principal cumulative_interest;
             remaining_balance =
               Fin loan_amount #
                 map2 fsub (replicate n (Fin loan_amount)) (tl cumulative_principal)
         in Inr \<lparr>Month = [0..<n + 1], Principal = cumulative_principal,
                 Interest = cumulative_interest, Remaining_Balance = remaining_balance,
                 Total_Paid = cumulative_total\<rparr>))"

section \<open>Properties of \<open>loan_calc\<close>\<close>

lemma payment_cell_rate_zero: "payment_cell loan 0 months = NaN"
  by (simp add: payment_cell_def fpow_def fsub_def)

lemma loan_calc_scalars:
  "loan_calc (Scalar loan) (Scalar rate) months = Item (payment_cell loan rate months)"
  by (simp add: loan_calc_def)

lemma concat_singletons: "concat (map (\<lambda>x. [f x]) xs) = map f xs"
  by (induction xs) simp_all

text \<open>Away from length 1 the kind of the result follows the kind of the arguments.\<close>

lemma loan_calc_array_scalar:
  "length loans \<noteq> 1 \<Longrightarrow>
   loan_calc (Array loans) (Scalar rate) months =
     Array1 (map (\<lambda>l. payment_cell l rate months) loans)"
  by (simp add: loan_calc_def concat_singletons)

lemma loan_calc_scalar_array:
  "length rates \<noteq> 1 \<Longrightarrow>
   loan_calc (Scalar loan) (Array rates) months =
     Array1 (map (\<lambda>r. payment_cell loan r months) rates)"
  by (simp add: loan_calc_def)

lemma loan_calc_array_array:
  "length loans \<noteq> 1 \<Longrightarrow> length rates \<noteq> 1 \<Longrightarrow>
   loan_calc (Array loans) (Array rates) months =
     Array2 (length loans) (length rates)
       (map (\<lambda>l. map (\<lambda>r. payment_cell l r months) rates) loans)"
  by (simp add: loan_calc_def)

text \<open>At length 1 it follows the shape of the outer product.\<close>

lemma loan_calc_length_one:
  "loan_calc (Array [l]) (Scalar r) months = Item (payment_cell l r months)"
  "loan_calc (Scalar l) (Array [r]) months = Item (payment_cell l r months)"
  "loan_calc (Array [l]) (Array [r]) months = Item (payment_cell l r months)"
  "length loans \<noteq> 1 \<Longrightarrow>
   loan_calc (Array loans) (Array [r]) months =
     Array1 (map (\<lambda>l. payment_cell l r months) loans)"
  "length rates \<noteq> 1 \<Longrightarrow>
   loan_calc (Array [l]) (Array rates) months =
     Array1 (map (\<lambda>r. payment_cell l r months) rates)"
  by (simp_all add: loan_calc_def concat_singletons)

lemma power_minus_one_pos:
  fixes r :: real
  assumes "0 < r" and "0 < n"
  shows "0 < (1 + r) ^ n - 1"
proof -
  have "1 < (1 + r) ^ n"
    using assms by (intro one_less_power) simp_all
  then show ?thesis by simp
qed

text \<open>With a positive rate over at least one month the payment is the annuity.\<close>

lemma payment_cell_positive_rate:
  assumes "0 < rate" and "1 \<le> months"
  shows "payment_cell loan rate months =
           Fin (rate / 12 * (1 + rate / 12) ^ nat months /
                ((1 + rate / 12) ^ nat months - 1) * loan)"
proof -
  have "0 < (1 + rate / 12) ^ nat months - 1"
    using assms by (intro power_minus_one_pos) simp_all
  then have "(1 + rate / 12) ^ nat months \<noteq> 1"
    by simp
  then show ?thesis
    using assms by (simp add: payment_cell_def fpow_def fsub_def Let_def)
qed

text \<open>
  Claim C1, as the code has it. With an annual rate of 0 the monthly rate is 0, the
  numerator is \<open>0 * 1\<close> and the denominator \<open>1 - 1\<close>, so the quotient is
  \<open>0 / 0\<close>: no exception is raised, and the result is \<open>nan\<close> for every loan
  and every number of months, not \<open>loan / months\<close>.
\<close>

theorem loan_calc_zero_rate_is_nan:
  "loan_calc (Scalar loan) (Scalar 0) term_months = Item NaN"
  by (simp add: loan_calc_scalars payment_cell_rate_zero)

text \<open>
  Claim C1 as stated fails: a loan of 1200 over 12 months at rate 0 does not give
  \<open>1200 / 12\<close>.
\<close>

theorem loan_calc_zero_rate_counterexample:
  "(0::real) < 1200 \<and> (1::int) \<le> 12 \<and>
   loan_calc (Scalar 1200) (Scalar 0) 12 = Item NaN \<and>
   loan_calc (Scalar 1200) (Scalar 0) 12 \<noteq> Item (Fin (1200 / 12))"
  by (simp add: loan_calc_scalars payment_cell_rate_zero)

text \<open>
  Claim C4 at arrays of length 1. The result is chosen by the shape of the outer
  product, not by the kind of the arguments: an array of length 1 with a number, or
  with another array of length 1, gives a float, and two arrays of which one has
  length 1 give a one-dimensional array instead of a matrix.
\<close>

theorem loan_calc_length_one_arrays:
  "loan_calc (Array [100000]) (Scalar 0.12) 1 = Item (Fin 101000) \<and>
   loan_calc (Scalar 100000) (Array [0.12]) 1 = Item (Fin 101000) \<and>
   loan_calc (Array [100000, 200000]) (Array [0.12]) 1 = Array1 [Fin 101000, Fin 202000] \<and>
   loan_calc (Array [100000]) (Array [0.12, 0.24]) 1 = Array1 [Fin 101000, Fin 102000] \<and>
   loan_calc (Array [100000]) (Array [0.12]) 1 = Item (Fin 101000)"
  by (simp add: loan_calc_def payment_cell_def fpow_def fsub_def)

section \<open>Properties of the electricity costs\<close>

text \<open>
  Claim C3, as the code has it: for a usage of 100, a price of 1.5 and a limit of
  0.9125 the support is \<open>100 * (1.5 - 0.9125) * 0.9 = 52.875\<close>.
\<close>

theorem govt_support_regression_value:
  "calculate_govt_support 100 1.5 0.9125 = 52.875"
  by (simp add: calculate_govt_support_def)

text \<open>Claim C3 as stated fails: the support at this input is not 4.725.\<close>

theorem govt_support_regression_counterexample:
  "calculate_govt_support 100 1.5 0.9125 \<noteq> 4.725"
  by (simp add: calculate_govt_support_def)

text \<open>
  Claim C6. At or below the limit the cost is the fixed cost plus usage times price and
  markup, with no support term; above the limit the support is subtracted; and above a
  usage of 5000 nothing is subtracted at any price.
\<close>

theorem electricity_costs_two_branches:
  "(price \<le> support_limit \<longrightarrow>
      calculate_electricity_costs usage price markup fixed_cost support_limit =
        fixed_cost + usage * (price + markup)) \<and>
   (support_limit < price \<longrightarrow>
      calculate_electricity_costs usage price markup fixed_cost support_limit =
        fixed_cost + usage * (price + markup) -
          calculate_govt_support usage price support_limit) \<and>
   (5000 < usage \<longrightarrow>
      calculate_electricity_costs usage price markup fixed_cost support_limit =
        fixed_cost + usage * (price + markup))"
  by (simp add: calculate_electricity_costs_def calculate_govt_support_def Let_def)

theorem electricity_costs_two_branches_witness:
  "(0.5::real) \<le> 0.9125 \<and>
   calculate_electricity_costs 1000 0.5 0.1 100 0.9125 = 100 + 1000 * (0.5 + 0.1) \<and>
   (0.9125::real) < 1.5 \<and>
   calculate_electricity_costs 1000 1.5 0.1 100 0.9125 =
     100 + 1000 * (1.5 + 0.1) - calculate_govt_support 1000 1.5 0.9125 \<and>
   (5000::real) < 6000 \<and>
   calculate_electricity_costs 6000 1.5 0.1 100 0.9125 = 100 + 6000 * (1.5 + 0.1)"
  using electricity_costs_two_branches [of "0.5" "0.9125" 1000 "0.1" 100]
    electricity_costs_two_branches [of "1.5" "0.9125" 1000 "0.1" 100]
    electricity_costs_two_branches [of "1.5" "0.9125" 6000 "0.1" 100]
  by simp

text \<open>
  Claim C7, as the code has it. With a price at or below the limit the support is 0
  exactly when the usage is above 5000, the usage is 0 or the price equals the limit.
  For a usage in \<open>(0, 5000]\<close> and a price below the limit it is the negative amount
  \<open>0.9 * usage * (price - limit)\<close>. \<open>calculate_electricity_costs\<close> returns before
  it would call the function with such a price, so the negative amount enters no total.
\<close>

theorem govt_support_below_limit:
  assumes "price \<le> support_limit"
  shows "(calculate_govt_support usage price support_limit = 0 \<longleftrightarrow>
            5000 < usage \<or> usage = 0 \<or> price = support_limit) \<and>
         (0 < usage \<and> usage \<le> 5000 \<and> price < support_limit \<longrightarrow>
            calculate_govt_support usage price support_limit =
              0.9 * usage * (price - support_limit) \<and>
            calculate_govt_support usage price support_limit < 0) \<and>
         calculate_electricity_costs usage price markup fixed_cost support_limit =
           fixed_cost + usage * (price + markup)"
  using assms
  by (auto simp: calculate_govt_support_def calculate_electricity_costs_def Let_def
      mult_less_0_iff)

theorem govt_support_below_limit_witness:
  "(0.5::real) \<le> 0.9125 \<and> (0::real) < 100 \<and> (100::real) \<le> 5000 \<and>
   (0.5::real) < 0.9125 \<and>
   calculate_govt_support 100 0.5 0.9125 = 0.9 * 100 * (0.5 - 0.9125) \<and>
   calculate_govt_support 100 0.5 0.9125 < 0 \<and>
   calculate_electricity_costs 100 0.5 0.1 100 0.9125 = 100 + 100 * (0.5 + 0.1)"
  using govt_support_below_limit [of "0.5" "0.9125" 100 "0.1" 100]
  by simp

text \<open>
  Claim C7 as stated fails: a usage of 100 at a price of 0.5, below the limit, gives a
  negative support.
\<close>

theorem govt_support_negative_counterexample:
  "(0.5::real) \<le> 0.9125 \<and> calculate_govt_support 100 0.5 0.9125 < 0 \<and>
   calculate_govt_support 100 0.5 0.9125 \<noteq> 0"
  by (simp add: calculate_govt_support_def)

lemma foldl_snoc_map: "foldl (\<lambda>acc x. acc @ [g x]) acc xs = acc @ map g xs"
  by (induction xs arbitrary: acc) simp_all

lemma foldl_append_concat: "foldl (\<lambda>acc u. acc @ h u) acc us = acc @ concat (map h us)"
  by (induction us arbitrary: acc) simp_all

lemma product_concat: "List.product us ps = concat (map (\<lambda>u. map (Pair u) ps) us)"
  by (induction us) simp_all

text \<open>
  Claim C9. For usages \<open>[a, b]\<close> and prices \<open>[c, d]\<close> the sweep has four rows, in
  the order \<open>(a, c), (a, d), (b, c), (b, d)\<close>. In general its rows are those of the
  Cartesian product of usages and prices, usage outermost and price innermost, each with
  its cost.
\<close>

theorem electricity_sweep_order:
  "scenario_analysis_electricity_costs [a, b] [c, d] markup fixed_cost support_limit =
     [\<lparr>kWh_Usage = a, kWh_Price = c,
        Total_Cost = calculate_electricity_costs a c markup fixed_cost support_limit\<rparr>,
      \<lparr>kWh_Usage = a, kWh_Price = d,
        Total_Cost = calculate_electricity_costs a d markup fixed_cost support_limit\<rparr>,
      \<lparr>kWh_Usage = b, kWh_Price = c,
        Total_Cost = calculate_electricity_costs b c markup fixed_cost support_limit\<rparr>,
      \<lparr>kWh_Usage = b, kWh_Price = d,
        Total_Cost = calculate_electricity_costs b d markup fixed_cost support_limit\<rparr>] \<and>
   scenario_analysis_electricity_costs usages prices markup fixed_cost support_limit =
     map (\<lambda>(u, p). \<lparr>kWh_Usage = u, kWh_Price = p,
            Total_Cost = calculate_electricity_costs u p markup fixed_cost support_limit\<rparr>)
       (List.product usages prices) \<and>
   map (\<lambda>s. (kWh_Usage s, kWh_Price s))
       (scenario_analysis_electricity_costs usages prices markup fixed_cost support_limit) =
     List.product usages prices \<and>
   length (scenario_analysis_electricity_costs usages prices markup fixed_cost support_limit) =
     length usages * length prices"
proof -
  let ?row = "\<lambda>u p. \<lparr>kWh_Usage = u, kWh_Price = p,
            Total_Cost = calculate_electricity_costs u p markup fixed_cost support_limit\<rparr>"
  have gen: "scenario_analysis_electricity_costs us ps markup fixed_cost support_limit =
      map (\<lambda>(u, p). ?row u p) (List.product us ps)" for us ps
    unfolding scenario_analysis_electricity_costs_def foldl_snoc_map foldl_append_concat
    by (simp add: product_concat map_concat comp_def)
  have four: "scenario_analysis_electricity_costs [a, b] [c, d] markup fixed_cost support_limit =
      [?row a c, ?row a d, ?row b c, ?row b d]"
    by (simp add: gen)
  have proj: "map (\<lambda>s. (kWh_Usage s, kWh_Price s))
       (scenario_analysis_electricity_costs usages prices markup fixed_cost support_limit) =
     List.product usages prices"
    by (simp add: gen comp_def case_prod_unfold)
  have len: "length (scenario_analysis_electricity_costs usages prices markup fixed_cost
      support_limit) = length usages * length prices"
    by (simp add: gen)
  from four gen proj len show ?thesis by blast
qed

section \<open>Properties of the monthly cost\<close>

lemma series_of_scalars:
  "series_of (loan_calc (Scalar loan) (Scalar rate) months) = Inr [payment_cell loan rate months]"
  by (simp add: loan_calc_scalars)

lemma scenarios_map:
  "monthly_price_calculator_scenarios hs irs fks us ps ms fes ns pas pbs tcs eks fs =
     map scenario_of (all_combinations hs irs fks us ps ms fes ns pas pbs tcs eks fs)"
  by (simp add: monthly_price_calculator_scenarios_def foldl_snoc_map)

lemma length_all_combinations:
  "length (all_combinations hs irs fks us ps ms fes ns pas pbs tcs eks fs) =
     length hs * length irs * length fks * length us * length ps * length ms * length fes *
     length ns * length pas * length pbs * length tcs * length eks * length fs"
  by (simp add: all_combinations_def)

lemma inputs_of_scenario_of:
  "(\<lambda>s. (c_house_price s, c_interest_rate s, c_fixed_cost_house s, c_kwh_usage s,
        c_kwh_price s, c_markup_nok s, c_fixed_cost_electricity s, c_ammortisation_periods s,
        c_person_a_fixed_costs s, c_person_b_fixed_costs s, c_transaction_costs s, c_ek s,
        c_ownership_fraq s)) (scenario_of c) = c"
proof (cases c)
  case (fields a b c1 d e f g)
  then show ?thesis by (cases g) (simp add: Let_def)
qed

text \<open>
  Claim C10. A limit of 0 is not true, so the check is skipped as it is without a limit:
  the call returns the frame of one row, whatever the loan, also when the loan is
  above 0.
\<close>

theorem zero_limit_skips_check:
  "monthly_price_calculator hp ir fk el n pa pb tc equity f (Some 0) =
     monthly_price_calculator hp ir fk el n pa pb tc equity f None \<and>
   (\<exists>r. monthly_price_calculator hp ir fk el n pa pb tc equity f (Some 0) = DataFrame [r] \<and>
        lan_total r = payment_cell (hp - (equity - tc)) ir n)"
  by (simp add: monthly_price_calculator_def series_of_scalars Let_def)

text \<open>
  Claim C2, as the code has it. With a limit that is not 0, the call prints the message
  and returns \<open>None\<close> exactly when the loan, the house price less the equity after
  transaction costs, is above the limit, and it returns a frame exactly when the
  loan is not above it. The sweep has no such check: it has one row for every
  combination of its thirteen ranges, in the order of the combinations.
\<close>

theorem loan_limit_check:
  assumes "max_loan_limit \<noteq> 0"
  shows "(monthly_price_calculator hp ir fk el n pa pb tc equity f (Some max_loan_limit) =
            Printed_None max_loan_limit (hp - (equity - tc))
          \<longleftrightarrow> hp - (equity - tc) > max_loan_limit) \<and>
         ((\<exists>rows. monthly_price_calculator hp ir fk el n pa pb tc equity f (Some max_loan_limit) =
            DataFrame rows)
          \<longleftrightarrow> \<not> hp - (equity - tc) > max_loan_limit) \<and>
         monthly_price_calculator_scenarios hs irs fks us ps ms fes ns pas pbs tcs eks fs =
           map scenario_of (all_combinations hs irs fks us ps ms fes ns pas pbs tcs eks fs) \<and>
         map (\<lambda>s. (c_house_price s, c_interest_rate s, c_fixed_cost_house s, c_kwh_usage s,
                c_kwh_price s, c_markup_nok s, c_fixed_cost_electricity s,
                c_ammortisation_periods s, c_person_a_fixed_costs s, c_person_b_fixed_costs s,
                c_transaction_costs s, c_ek s, c_ownership_fraq s))
           (monthly_price_calculator_scenarios hs irs fks us ps ms fes ns pas pbs tcs eks fs) =
           all_combinations hs irs fks us ps ms fes ns pas pbs tcs eks fs \<and>
         length (monthly_price_calculator_scenarios hs irs fks us ps ms fes ns pas pbs tcs eks fs) =
           length hs * length irs * length fks * length us * length ps * length ms *
           length fes * length ns * length pas * length pbs * length tcs * length eks * length fs"
proof -
  have a: "monthly_price_calculator hp ir fk el n pa pb tc equity f (Some max_loan_limit) =
            Printed_None max_loan_limit (hp - (equity - tc))
          \<longleftrightarrow> hp - (equity - tc) > max_loan_limit"
    using assms
    by (simp add: monthly_price_calculator_def series_of_scalars Let_def)
  have b: "(\<exists>rows. monthly_price_calculator hp ir fk el n pa pb tc equity f (Some max_loan_limit) =
            DataFrame rows)
          \<longleftrightarrow> \<not> hp - (equity - tc) > max_loan_limit"
    using assms
    by (simp add: monthly_price_calculator_def series_of_scalars Let_def)
  have c: "map (\<lambda>s. (c_house_price s, c_interest_rate s, c_fixed_cost_house s, c_kwh_usage s,
                c_kwh_price s, c_markup_nok s, c_fixed_cost_electricity s,
                c_ammortisation_periods s, c_person_a_fixed_costs s, c_person_b_fixed_costs s,
                c_transaction_costs s, c_ek s, c_ownership_fraq s))
           (monthly_price_calculator_scenarios hs irs fks us ps ms fes ns pas pbs tcs eks fs) =
           all_combinations hs irs fks us ps ms fes ns pas pbs tcs eks fs"
    unfolding scenarios_map map_map comp_def inputs_of_scenario_of by simp
  have d: "length (monthly_price_calculator_scenarios hs irs fks us ps ms fes ns pas pbs tcs eks fs) =
           length hs * length irs * length fks * length us * length ps * length ms *
           length fes * length ns * length pas * length pbs * length tcs * length eks * length fs"
    unfolding scenarios_map length_map length_all_combinations by simp
  from a b c d scenarios_map show ?thesis by blast
qed

theorem loan_limit_check_witness:
  "(400000::real) \<noteq> 0 \<and> 2500000 - (2280000 - 200000) > (400000::real) \<and>
   monthly_price_calculator 2500000 0.12 3000 1500 1 12349 12000 200000 2280000 0.33
     (Some 400000) = Printed_None 400000 (2500000 - (2280000 - 200000)) \<and>
   length (monthly_price_calculator_scenarios [2500000, 3000000] [0.12] [3000] [1000] [1.5]
     [0.1] [100] [1, 2, 3] [12349] [12000] [200000] [2280000] [0.33]) = 6"
  using loan_limit_check [of 400000 2500000 "0.12" 3000 1500 1 12349 12000 200000 2280000 "0.33"
      "[2500000, 3000000]" "[0.12]" "[3000]" "[1000]" "[1.5]" "[0.1]" "[100]" "[1, 2, 3]"
      "[12349]" "[12000]" "[200000]" "[2280000]" "[0.33]"]
  by (simp add: all_combinations_def)

text \<open>
  Claim C2 as stated fails: with the limit 0 supplied and a loan of 420000, which is
  above it, the call returns the frame.
\<close>

theorem loan_limit_zero_counterexample:
  "(0::real) < 2500000 - (2280000 - 200000) \<and>
   monthly_price_calculator 2500000 0.12 3000 1500 1 12349 12000 200000 2280000 0.33 (Some 0)
     = DataFrame [\<lparr>lan_total = Fin 424200, rente = 0.12, elpris = 1500, fk_hus = 3000,
         total_belop = Fin 428700, a_belop_hus = Fin 142236, b_belop_hus = Fin 286464,
         a_total = Fin 154585, b_total = Fin 298464, person_a_eierandel = 0.33,
         person_b_eierandel = 0.67\<rparr>]"
  by (simp add: monthly_price_calculator_def series_of_scalars payment_cell_def
      fpow_def fsub_def Let_def)

text \<open>
  Claim C8. In a row of the frame whose loan payment is a finite amount \<open>p\<close>, the
  share of person A is \<open>p * f + el / 2 + fk / 2\<close> and the share of person B is
  \<open>p * (1 - f) + el / 2 + fk / 2\<close>: each carries half of the electricity cost
  and half of the fixed house cost whatever the ownership fraction \<open>f\<close>, and the
  two shares add up to the total \<open>p + el + fk\<close>. A row of the sweep has the same
  shares, with the electricity cost it computes, inside \<open>a_total\<close> and \<open>b_total\<close>.
\<close>

theorem ownership_split:
  "(monthly_price_calculator hp ir fk el n pa pb tc equity f max_loan_limit = DataFrame rows \<and>
    r \<in> set rows \<and> lan_total r = Fin p \<longrightarrow>
      a_belop_hus r = Fin (p * f + el / 2 + fk / 2) \<and>
      b_belop_hus r = Fin (p * (1 - f) + el / 2 + fk / 2) \<and>
      fadd (a_belop_hus r) (b_belop_hus r) = Fin (p + el + fk) \<and>
      total_belop r = Fin (p + el + fk)) \<and>
   (c_monthly_loan_payment
       (scenario_of (hp, ir, fk, usage, price, markup, fe, n, pa, pb, tc, equity, f)) =
      Item (Fin q) \<longrightarrow>
      c_a_total (scenario_of (hp, ir, fk, usage, price, markup, fe, n, pa, pb, tc, equity, f)) =
        Item (Fin (q * f +
          calculate_electricity_costs usage price markup fe 0.9125 / 2 + fk / 2 + pa)) \<and>
      c_b_total (scenario_of (hp, ir, fk, usage, price, markup, fe, n, pa, pb, tc, equity, f)) =
        Item (Fin (q * (1 - f) +
          calculate_electricity_costs usage price markup fe 0.9125 / 2 + fk / 2 + pb)) \<and>
      c_el_cost (scenario_of (hp, ir, fk, usage, price, markup, fe, n, pa, pb, tc, equity, f)) =
        calculate_electricity_costs usage price markup fe 0.9125)"
proof -
  have composer: "a_belop_hus r = Fin (p * f + el / 2 + fk / 2) \<and>
      b_belop_hus r = Fin (p * (1 - f) + el / 2 + fk / 2) \<and>
      fadd (a_belop_hus r) (b_belop_hus r) = Fin (p + el + fk) \<and>
      total_belop r = Fin (p + el + fk)"
    if "monthly_price_calculator hp ir fk el n pa pb tc equity f max_loan_limit = DataFrame rows"
      and "r \<in> set rows" and "lan_total r = Fin p"
    using that
    by (auto simp: monthly_price_calculator_def series_of_scalars Let_def algebra_simps
        split: if_splits option.splits)
  have sweep: "c_a_total (scenario_of (hp, ir, fk, usage, price, markup, fe, n, pa, pb, tc, equity, f)) =
        Item (Fin (q * f +
          calculate_electricity_costs usage price markup fe 0.9125 / 2 + fk / 2 + pa)) \<and>
      c_b_total (scenario_of (hp, ir, fk, usage, price, markup, fe, n, pa, pb, tc, equity, f)) =
        Item (Fin (q * (1 - f) +
          calculate_electricity_costs usage price markup fe 0.9125 / 2 + fk / 2 + pb)) \<and>
      c_el_cost (scenario_of (hp, ir, fk, usage, price, markup, fe, n, pa, pb, tc, equity, f)) =
        calculate_electricity_costs usage price markup fe 0.9125"
    if "c_monthly_loan_payment
       (scenario_of (hp, ir, fk, usage, price, markup, fe, n, pa, pb, tc, equity, f)) =
      Item (Fin q)"
    using that
    by (simp add: Let_def res_plus_def res_times_def)
  from composer sweep show ?thesis by blast
qed

theorem ownership_split_witness:
  "monthly_price_calculator 2500000 0.12 3000 1500 1 12349 12000 200000 2280000 0.33 None =
     DataFrame [\<lparr>lan_total = Fin 424200, rente = 0.12, elpris = 1500, fk_hus = 3000,
         total_belop = Fin 428700, a_belop_hus = Fin 142236, b_belop_hus = Fin 286464,
         a_total = Fin 154585, b_total = Fin 298464, person_a_eierandel = 0.33,
         person_b_eierandel = 0.67\<rparr>] \<and>
   fadd (Fin 142236) (Fin 286464) = Fin (424200 + 1500 + 3000) \<and>
   c_monthly_loan_payment (scenario_of
     (2500000, 0.12, 3000, 1000, 0.5, 0.1, 100, 1, 12349, 12000, 200000, 2280000, 0.33)) =
     Item (Fin 424200) \<and>
   c_a_total (scenario_of
     (2500000, 0.12, 3000, 1000, 0.5, 0.1, 100, 1, 12349, 12000, 200000, 2280000, 0.33)) =
     Item (Fin (424200 * 0.33 + 700 / 2 + 3000 / 2 + 12349)) \<and>
   c_b_total (scenario_of
     (2500000, 0.12, 3000, 1000, 0.5, 0.1, 100, 1, 12349, 12000, 200000, 2280000, 0.33)) =
     Item (Fin (424200 * (1 - 0.33) + 700 / 2 + 3000 / 2 + 12000))"
proof -
  let ?r = "\<lparr>lan_total = Fin 424200, rente = 0.12, elpris = 1500, fk_hus = 3000,
         total_belop = Fin 428700, a_belop_hus = Fin 142236, b_belop_hus = Fin 286464,
         a_total = Fin 154585, b_total = Fin 298464, person_a_eierandel = 0.33,
         person_b_eierandel = 0.67\<rparr>"
  have run: "monthly_price_calculator 2500000 0.12 3000 1500 1 12349 12000 200000 2280000 0.33
      None = DataFrame [?r]"
    by (simp add: monthly_price_calculator_def series_of_scalars payment_cell_def
        fpow_def fsub_def Let_def)
  have pay: "c_monthly_loan_payment (scenario_of
     (2500000, 0.12, 3000, 1000, 0.5, 0.1, 100, 1, 12349, 12000, 200000, 2280000, 0.33)) =
     Item (Fin 424200)"
    by (simp add: loan_calc_scalars payment_cell_def fpow_def fsub_def Let_def)
  have el: "calculate_electricity_costs 1000 0.5 0.1 100 0.9125 = 700"
    by (simp add: calculate_electricity_costs_def)
  show ?thesis
    using run pay el
      ownership_split [of 2500000 "0.12" 3000 1500 1 12349 12000 200000 2280000 "0.33" None
        "[?r]" ?r 424200 1000 "0.5" "0.1" 100 424200]
    by simp
qed

section \<open>Properties of the amortization schedule\<close>

lemma fadd_zero_left: "fadd (Fin 0) x = x"
  by (cases x) simp_all

lemma cumsum_from_zero: "cumsum xs = cumsum_from (Fin 0) xs"
  by (cases xs) (simp_all add: cumsum_def fadd_zero_left)

lemma length_cumsum_from: "length (cumsum_from a xs) = length xs"
  by (induction xs arbitrary: a) simp_all

lemma length_cumsum: "length (cumsum xs) = length xs"
  by (simp add: cumsum_from_zero length_cumsum_from)

lemma last_cumsum_from: "xs \<noteq> [] \<Longrightarrow> last (cumsum_from a xs) = foldl fadd a xs"
proof (induction xs arbitrary: a)
  case Nil
  then show ?case by simp
next
  case (Cons x xs)
  then show ?case by (cases xs) simp_all
qed

lemma cumsum_from_finite:
  "\<forall>x\<in>set xs. \<exists>b. x = Fin b \<Longrightarrow> \<forall>y\<in>set (cumsum_from (Fin a) xs). \<exists>b. y = Fin b"
  by (induction xs arbitrary: a) auto

lemma cumsum_finite:
  assumes "\<forall>x\<in>set xs. \<exists>b. x = Fin b"
  shows "\<forall>y\<in>set (map fround (Fin 0 # cumsum xs)). \<exists>b. y = Fin b"
  using cumsum_from_finite [OF assms, of 0] by (auto simp: cumsum_from_zero)

lemma rint_zero: "rint 0 = 0"
  by (simp add: rint_def)

lemma rint_close: "\<bar>x - rint x\<bar> \<le> 1 / 2"
proof -
  have "of_int \<lfloor>x\<rfloor> \<le> x" and "x < of_int \<lfloor>x\<rfloor> + 1"
    by linarith+
  then show ?thesis
    by (auto simp: rint_def Let_def)
qed

lemma fixed_payment_finite:
  assumes "0 < r" and "0 < n"
  shows "fixed_payment r n pv = Fin (pv * r * (1 + r) ^ n / ((1 + r) ^ n - 1))"
proof -
  have "(1 + r) ^ n - 1 \<noteq> 0"
    using power_minus_one_pos [OF assms] by simp
  then show ?thesis
    using assms(1) by (simp add: fixed_payment_def)
qed

text \<open>The balance in closed form, for a finite payment \<open>pay\<close>.\<close>

lemma outstanding_balance_closed:
  assumes "r \<noteq> 0" and "fixed_payment r n pv = Fin pay"
  shows "outstanding_balance r n pv j =
           Fin (pv * (1 + r) ^ j - pay * ((1 + r) ^ j - 1) / r)"
proof (induction j)
  case 0
  show ?case by simp
next
  case (Suc j)
  show ?case
    using assms(1) by (simp add: Suc assms(2) fsub_def field_simps)
qed

text \<open>The annuity pays the loan off: after the last payment nothing is outstanding.\<close>

lemma outstanding_balance_end:
  assumes "0 < r" and "0 < n"
  shows "outstanding_balance r n pv n = Fin 0"
proof -
  have d: "(1 + r) ^ n - 1 \<noteq> 0"
    using power_minus_one_pos [OF assms] by simp
  have "outstanding_balance r n pv n =
      Fin (pv * (1 + r) ^ n -
        (pv * r * (1 + r) ^ n / ((1 + r) ^ n - 1)) * ((1 + r) ^ n - 1) / r)"
    using assms by (intro outstanding_balance_closed fixed_payment_finite) simp_all
  also have "pv * (1 + r) ^ n -
        (pv * r * (1 + r) ^ n / ((1 + r) ^ n - 1)) * ((1 + r) ^ n - 1) / r = 0"
    using d assms(1) by simp
  finally show ?thesis .
qed

lemma foldl_telescope:
  "foldl fadd (Fin a) (map (\<lambda>j. Fin (B j - B (Suc j))) [0..<m]) = Fin (a + B 0 - B m)"
  by (induction m) simp_all

text \<open>The principal paid in period \<open>j + 1\<close> is the drop of the balance in that period.\<close>

lemma principal_cell:
  assumes "r \<noteq> 0" and "fixed_payment r n pv = Fin pay"
  shows "fmul (npf_ppmt r (Suc j) n pv) (Fin (- 1)) =
           Fin ((pv * (1 + r) ^ j - pay * ((1 + r) ^ j - 1) / r) -
                (pv * (1 + r) ^ Suc j - pay * ((1 + r) ^ Suc j - 1) / r))"
  using assms(1)
  by (simp add: npf_ppmt_def outstanding_balance_closed [OF assms] assms(2) fsub_def
      field_simps)

lemma last_map2:
  assumes "length xs = length ys" and "xs \<noteq> []"
  shows "last (map2 f xs ys) = f (last xs) (last ys)"
  using assms
proof (induction xs ys rule: list_induct2)
  case Nil
  then show ?case by simp
next
  case (Cons x xs y ys)
  then show ?case by (cases xs; cases ys) simp_all
qed

lemma schedule_columns:
  assumes "0 \<le> term_months"
  shows "\<exists>df. calculate_amortization_schedule loan rate term_months = Inr df \<and>
           Month df = [0..<nat term_months + 1] \<and>
           Principal df = map fround (Fin 0 # cumsum (map (\<lambda>k.
              fmul (npf_ppmt (rate / 12) k (nat term_months) loan) (Fin (- 1)))
                (map Suc [0..<nat term_months]))) \<and>
           Interest df = map fround (Fin 0 # cumsum (map (\<lambda>k.
              fmul (npf_ipmt (rate / 12) k (nat term_months) loan) (Fin (- 1)))
                (map Suc [0..<nat term_months]))) \<and>
           Remaining_Balance df = Fin loan #
              map2 fsub (replicate (nat term_months) (Fin loan)) (tl (Principal df)) \<and>
           Total_Paid df = map2 fadd (Principal df) (Interest df)"
  using assms by (simp add: calculate_amortization_schedule_def Let_def)

text \<open>A loan of 1200 at 12 per cent a year over two months, computed.\<close>

lemma schedule_example:
  "calculate_amortization_schedule 1200 0.12 2 =
     Inr \<lparr>Month = [0, 1, 2], Principal = [Fin 0, Fin 597, Fin 1200],
          Interest = [Fin 0, Fin 12, Fin 18],
          Remaining_Balance = [Fin 1200, Fin 603, Fin 0],
          Total_Paid = [Fin 0, Fin 609, Fin 1218]\<rparr>"
  by (simp add: calculate_amortization_schedule_def npf_ppmt_def fixed_payment_def cumsum_def
      fsub_def Let_def numeral_2_eq_2 rint_def upt_rec)

text \<open>
  Claim C5. For a positive loan, a positive annual rate and a term of at least one
  month the schedule is returned and every column has \<open>term_months + 1\<close> entries. In
  row 0 the remaining balance is the loan and the cumulative principal and interest are
  0. The last remaining balance is a finite amount of absolute value at most 1 (it is
  the loan less the loan rounded). In every row the three cumulative amounts are finite
  and the total paid is the cumulative principal plus the cumulative interest.
\<close>

theorem amortization_schedule_rows:
  assumes "0 < loan" and "0 < rate" and "1 \<le> term_months"
  shows "\<exists>df. calculate_amortization_schedule loan rate term_months = Inr df \<and>
           length (Month df) = nat term_months + 1 \<and>
           length (Principal df) = nat term_months + 1 \<and>
           length (Interest df) = nat term_months + 1 \<and>
           length (Remaining_Balance df) = nat term_months + 1 \<and>
           length (Total_Paid df) = nat term_months + 1 \<and>
           Remaining_Balance df ! 0 = Fin loan \<and>
           Principal df ! 0 = Fin 0 \<and>
           Interest df ! 0 = Fin 0 \<and>
           (\<exists>e. last (Remaining_Balance df) = Fin e \<and> \<bar>e\<bar> \<le> 1) \<and>
           (\<forall>k\<le>nat term_months. \<exists>p i. Principal df ! k = Fin p \<and> Interest df ! k = Fin i \<and>
               Total_Paid df ! k = Fin (p + i))"
proof -
  define N where "N = nat term_months"
  define r where "r = rate / 12"
  define pay where "pay = loan * r * (1 + r) ^ N / ((1 + r) ^ N - 1)"
  define B where "B = (\<lambda>j. loan * (1 + r) ^ j - pay * ((1 + r) ^ j - 1) / r)"
  define pp where "pp = map (\<lambda>k. fmul (npf_ppmt r k N loan) (Fin (- 1))) (map Suc [0..<N])"
  define ip where "ip = map (\<lambda>k. fmul (npf_ipmt r k N loan) (Fin (- 1))) (map Suc [0..<N])"
  have N: "0 < N" and r: "0 < r" and r0: "r \<noteq> 0"
    using assms by (simp_all add: N_def r_def)
  have pay: "fixed_payment r N loan = Fin pay"
    unfolding pay_def by (rule fixed_payment_finite [OF r N])
  have pp: "pp = map (\<lambda>j. Fin (B j - B (Suc j))) [0..<N]"
    unfolding pp_def B_def by (simp add: principal_cell [OF r0 pay] del: power_Suc)
  have ip: "ip = map (\<lambda>j. Fin (B j * r)) [0..<N]"
    unfolding ip_def B_def by (simp add: outstanding_balance_closed [OF r0 pay])
  have len: "length pp = N" "length ip = N"
    by (simp_all add: pp_def ip_def)
  have B0: "B 0 = loan"
    by (simp add: B_def)
  have "Fin (B N) = Fin 0"
    using outstanding_balance_closed [OF r0 pay, of N] outstanding_balance_end [OF r N, of loan]
    by (simp add: B_def)
  then have BN: "B N = 0"
    by simp
  from assms(3) obtain df where df: "calculate_amortization_schedule loan rate term_months = Inr df"
    and P: "Principal df = map fround (Fin 0 # cumsum pp)"
    and I: "Interest df = map fround (Fin 0 # cumsum ip)"
    and M: "Month df = [0..<nat term_months + 1]"
    and R: "Remaining_Balance df = Fin loan #
              map2 fsub (replicate N (Fin loan)) (tl (Principal df))"
    and T: "Total_Paid df = map2 fadd (Principal df) (Interest df)"
    using schedule_columns [of term_months loan rate]
    unfolding pp_def ip_def N_def r_def by auto
  have lenP: "length (Principal df) = N + 1" and lenI: "length (Interest df) = N + 1"
    by (simp_all add: P I len length_cumsum)
  have lenR: "length (Remaining_Balance df) = N + 1"
    by (simp add: R P len length_cumsum)
  have lenT: "length (Total_Paid df) = N + 1"
    by (simp add: T lenP lenI)
  have lenM: "length (Month df) = N + 1"
    by (simp add: M N_def)
  have row0: "Remaining_Balance df ! 0 = Fin loan" "Principal df ! 0 = Fin 0"
      "Interest df ! 0 = Fin 0"
    by (simp_all add: R P I rint_zero)
  have ne: "cumsum pp \<noteq> []"
    using len(1) N length_cumsum [of pp] by auto
  have pne: "pp \<noteq> []"
    using len(1) N by auto
  have "last (cumsum pp) = foldl fadd (Fin 0) pp"
    by (simp add: cumsum_from_zero last_cumsum_from [OF pne])
  also have "\<dots> = Fin loan"
    by (simp add: pp foldl_telescope B0 BN)
  finally have lastc: "last (cumsum pp) = Fin loan" .
  have tlP: "tl (Principal df) = map fround (cumsum pp)"
    by (simp add: P)
  have "last (Remaining_Balance df) =
      last (map2 fsub (replicate N (Fin loan)) (map fround (cumsum pp)))"
    using ne N by (simp add: R tlP)
  also have "\<dots> = fsub (last (replicate N (Fin loan))) (last (map fround (cumsum pp)))"
    using N by (intro last_map2) (simp_all add: length_cumsum len)
  also have "\<dots> = Fin (loan - rint loan)"
    using N ne by (simp add: last_map lastc fsub_def)
  finally have lastR: "last (Remaining_Balance df) = Fin (loan - rint loan)" .
  have close: "\<bar>loan - rint loan\<bar> \<le> 1"
    using rint_close [of loan] by linarith
  have finP: "\<forall>y\<in>set (Principal df). \<exists>b. y = Fin b"
    unfolding P by (rule cumsum_finite) (auto simp: pp)
  have finI: "\<forall>y\<in>set (Interest df). \<exists>b. y = Fin b"
    unfolding I by (rule cumsum_finite) (auto simp: ip)
  have total: "\<exists>p i. Principal df ! k = Fin p \<and> Interest df ! k = Fin i \<and>
      Total_Paid df ! k = Fin (p + i)" if "k \<le> N" for k
  proof -
    have k: "k < length (Principal df)" "k < length (Interest df)"
      using that by (simp_all add: lenP lenI)
    then obtain p i where "Principal df ! k = Fin p" and "Interest df ! k = Fin i"
      using finP finI nth_mem by metis
    moreover have "Total_Paid df ! k = fadd (Principal df ! k) (Interest df ! k)"
      using k by (simp add: T)
    ultimately show ?thesis by simp
  qed
  show ?thesis
    using df lenM lenP lenI lenR lenT row0 lastR close total
    unfolding N_def by auto
qed

theorem amortization_schedule_rows_witness:
  "(0::real) < 1200 \<and> (0::real) < 0.12 \<and> (1::int) \<le> 2 \<and>
   (\<exists>df. calculate_amortization_schedule 1200 0.12 2 = Inr df \<and>
      length (Month df) = 3 \<and> length (Principal df) = 3 \<and> length (Interest df) = 3 \<and>
      length (Remaining_Balance df) = 3 \<and> length (Total_Paid df) = 3 \<and>
      Remaining_Balance df ! 0 = Fin 1200 \<and> Principal df ! 0 = Fin 0 \<and>
      Interest df ! 0 = Fin 0 \<and>
      (\<exists>e. last (Remaining_Balance df) = Fin e \<and> \<bar>e\<bar> \<le> 1))"
  using amortization_schedule_rows [of 1200 "0.12" 2]
  by auto

end
